theory Spec2Isabelle
  imports Main "HOL-Library.AList"
begin

section \<open>Errors\<close>

text \<open>
  The exceptions a call of \<^verbatim>\<open>helpers.py\<close> can end with. \<open>StopIteration\<close> is what
  \<^verbatim>\<open>next(f)\<close> raises on an exhausted file, \<open>IndexError\<close> what \<^verbatim>\<open>values[0]\<close>
  raises on an empty array, \<open>FileNotFoundError\<close> what \<^verbatim>\<open>open(filename, "rt")\<close>
  raises on a missing file, \<open>ValueError\<close> what \<^verbatim>\<open>pd.Timestamp\<close> raises for a date it
  does not take. \<open>FormatError\<close> and \<open>TypeCoercionError\<close> are the two error kinds the
  specification names for the table reader.
\<close>

datatype error =
    StopIteration
  | IndexError
  | FileNotFoundError
  | ValueError
  | FormatError
  | TypeCoercionError

section \<open>The mapping table and its lookups\<close>

text \<open>
  One row of the municipality/region mapping table, with the columns the lookups read.
\<close>

record mapping_row =
  municipality_id :: int
  municipality_fi :: string
  municipality_sv :: string
  municipality_en :: string
  region_id :: int
  region_fi :: string
  region_sv :: string
  region_en :: string

type_synonym mappings = "mapping_row list"

text \<open>
  \<^verbatim>\<open>mappings.loc[mask, column]\<close>: the values of one column in the rows the mask keeps,
  in table order.
\<close>

definition loc :: "('r \<Rightarrow> bool) \<Rightarrow> ('r \<Rightarrow> 'v) \<Rightarrow> 'r list \<Rightarrow> 'v list" where
  "loc sel column table = map column (filter sel table)"

text \<open>\<^verbatim>\<open>match.values[0]\<close>: the first value, \<open>IndexError\<close> on an empty selection.\<close>

definition values0 :: "'v list \<Rightarrow> error + 'v" where
  "values0 vs = (case vs of [] \<Rightarrow> Inl IndexError | v # _ \<Rightarrow> Inr v)"

text \<open>
  \<^verbatim>\<open>
  def get_rid_by_mid(municipality_id, mappings):
      match = mappings.loc[mappings['municipality_id'] == municipality_id, 'region_id']
      if match.empty:
          return None
      return int(match.values[0])
  \<close>
\<close>

definition get_rid_by_mid :: "int \<Rightarrow> mappings \<Rightarrow> error + int option" where
  "get_rid_by_mid mid mappings =
     (let match = loc (\<lambda>r. municipality_id r = mid) region_id mappings
      in if match = [] then Inr None
         else (case values0 match of Inl e \<Rightarrow> Inl e | Inr v \<Rightarrow> Inr (Some v)))"

text \<open>
  \<^verbatim>\<open>
  def get_rid_by_name(region_name, mappings):
      if region_name == "WHOLE COUNTRY":
          return int(0)
      match = mappings.loc[(mappings['region_fi'] == region_name) |
                           (mappings['region_sv'] == region_name) |
                           (mappings['region_en'] == region_name), 'region_id']
      if match.empty:
          return None
      return int(match.values[0])
  \<close>
\<close>

definition region_mask :: "string \<Rightarrow> mapping_row \<Rightarrow> bool" where
  "region_mask region_name r \<longleftrightarrow>
     region_fi r = region_name \<or> region_sv r = region_name \<or> region_en r = region_name"

definition get_rid_by_name :: "string \<Rightarrow> mappings \<Rightarrow> error + int option" where
  "get_rid_by_name region_name mappings =
     (if region_name = ''WHOLE COUNTRY'' then Inr (Some 0)
      else
        (let match = loc (region_mask region_name) region_id mappings
         in if match = [] then Inr None
            else (case values0 match of Inl e \<Rightarrow> Inl e | Inr v \<Rightarrow> Inr (Some v))))"

text \<open>
  \<^verbatim>\<open>
  def get_mid_by_name(municipality_name, mappings):
      match = mappings.loc[(mappings['municipality_fi'] == municipality_name) |
                           (mappings['municipality_sv'] == municipality_name) |
                           (mappings['municipality_en'] == municipality_name), 'municipality_id']
      if match.empty:
          return None
      return int(match.values[0])
  \<close>
\<close>

definition municipality_mask :: "string \<Rightarrow> mapping_row \<Rightarrow> bool" where
  "municipality_mask municipality_name r \<longleftrightarrow>
     municipality_fi r = municipality_name \<or> municipality_sv r = municipality_name
     \<or> municipality_en r = municipality_name"

definition get_mid_by_name :: "string \<Rightarrow> mappings \<Rightarrow> error + int option" where
  "get_mid_by_name municipality_name mappings =
     (let match = loc (municipality_mask municipality_name) municipality_id mappings
      in if match = [] then Inr None
         else (case values0 match of Inl e \<Rightarrow> Inl e | Inr v \<Rightarrow> Inr (Some v)))"

text \<open>
  \<^verbatim>\<open>
  def get_name_by_mid(municipality_id, mappings):
      municipality_name = mappings.loc[mappings['municipality_id'] == municipality_id,
                                       'municipality_en'].values[0]
      return municipality_name
  \<close>
  There is no test of \<^verbatim>\<open>.empty\<close> here: the first value is taken at once.
\<close>

definition get_name_by_mid :: "int \<Rightarrow> mappings \<Rightarrow> error + string option" where
  "get_name_by_mid mid mappings =
     (case values0 (loc (\<lambda>r. municipality_id r = mid) municipality_en mappings) of
        Inl e \<Rightarrow> Inl e
      | Inr municipality_name \<Rightarrow> Inr (Some municipality_name))"

text \<open>Two rows of a mapping table, used as concrete inputs.\<close>

definition helsinki :: mapping_row where
  "helsinki = \<lparr>municipality_id = 91, municipality_fi = ''Helsinki'',
     municipality_sv = ''Helsingfors'', municipality_en = ''Helsinki'',
     region_id = 1, region_fi = ''Uusimaa'', region_sv = ''Nyland'', region_en = ''Uusimaa''\<rparr>"

definition espoo :: mapping_row where
  "espoo = \<lparr>municipality_id = 49, municipality_fi = ''Espoo'',
     municipality_sv = ''Esbo'', municipality_en = ''Espoo'',
     region_id = 1, region_fi = ''Uusimaa'', region_sv = ''Nyland'', region_en = ''Uusimaa''\<rparr>"

definition turku :: mapping_row where
  "turku = \<lparr>municipality_id = 853, municipality_fi = ''Turku'',
     municipality_sv = ''Abo'', municipality_en = ''Turku'',
     region_id = 2, region_fi = ''Varsinais-Suomi'', region_sv = ''Egentliga Finland'',
     region_en = ''Southwest Finland''\<rparr>"

text \<open>A row that carries the reserved name as a region name, under region id 7.\<close>

definition whole_country_row :: mapping_row where
  "whole_country_row = \<lparr>municipality_id = 0, municipality_fi = ''Koko maa'',
     municipality_sv = ''Hela landet'', municipality_en = ''WHOLE COUNTRY'',
     region_id = 7, region_fi = ''KOKO MAA'', region_sv = ''HELA LANDET'',
     region_en = ''WHOLE COUNTRY''\<rparr>"

section \<open>The last day of a quarter\<close>

text \<open>
  \<^verbatim>\<open>pd.Timestamp(year, month, day)\<close> is library code, not part of the source. A
  timestamp is kept as the date it is built from. The constructor does not take every
  date: like Python's \<^verbatim>\<open>datetime\<close>, which it extends, it raises \<open>ValueError\<close> for a
  year outside 1 to 9999, a month outside 1 to 12 or a day outside 1 to 31.
\<close>

record timestamp =
  year :: int
  month :: int
  day :: int

definition Timestamp :: "int \<Rightarrow> int \<Rightarrow> int \<Rightarrow> error + timestamp" where
  "Timestamp y m d =
     (if 1 \<le> y \<and> y \<le> 9999 \<and> 1 \<le> m \<and> m \<le> 12 \<and> 1 \<le> d \<and> d \<le> 31
      then Inr \<lparr>year = y, month = m, day = d\<rparr> else Inl ValueError)"

text \<open>
  \<^verbatim>\<open>
  def get_last_day_of_quarter(year, quarter):
      if quarter == 1:
          return pd.Timestamp(year, 3, 31)
      elif quarter == 2:
          return pd.Timestamp(year, 6, 30)
      elif quarter == 3:
          return pd.Timestamp(year, 9, 30)
      elif quarter == 4:
          return pd.Timestamp(year, 12, 31)
  \<close>
  The library's constructor is the parameter \<open>mk\<close>: it gives a timestamp or the error
  it raises, which the function then raises too. The function ends without
  \<^verbatim>\<open>return\<close> when no branch is taken, which is \<open>None\<close>.
\<close>

definition returning :: "error + 't \<Rightarrow> error + 't option" where
  "returning r = (case r of Inl e \<Rightarrow> Inl e | Inr t \<Rightarrow> Inr (Some t))"

definition get_last_day_of_quarter ::
  "(int \<Rightarrow> int \<Rightarrow> int \<Rightarrow> error + 't) \<Rightarrow> int \<Rightarrow> int \<Rightarrow> error + 't option" where
  "get_last_day_of_quarter mk y quarter =
     (if quarter = 1 then returning (mk y 3 31)
      else if quarter = 2 then returning (mk y 6 30)
      else if quarter = 3 then returning (mk y 9 30)
      else if quarter = 4 then returning (mk y 12 31)
      else Inr None)"

section \<open>Text, as the codec handles it\<close>

text \<open>
  A text is a list of characters (code points below 256). A line of a text that was read
  from a file ends with a line feed.

  \<^verbatim>\<open>sep.join(parts)\<close>.
\<close>

fun join :: "string \<Rightarrow> string list \<Rightarrow> string" where
  "join sep [] = []"
| "join sep [x] = x"
| "join sep (x # y # ys) = x @ sep @ join sep (y # ys)"

text \<open>
  \<^verbatim>\<open>s.split(sep)\<close> for a separator of one character: the empty text gives one empty
  field, and \<open>n\<close> separators give \<open>n + 1\<close> fields.
\<close>

fun split :: "char \<Rightarrow> string \<Rightarrow> string list" where
  "split sep [] = [[]]"
| "split sep (c # cs) =
     (if c = sep then [] # split sep cs
      else (case split sep cs of [] \<Rightarrow> [[c]] | w # ws \<Rightarrow> (c # w) # ws))"

text \<open>
  \<^verbatim>\<open>s.rstrip()\<close> removes every trailing character for which \<^verbatim>\<open>str.isspace\<close> holds:
  tab, line feed, vertical tab, form feed, carriage return, the four separators
  \<open>0x1C\<close> to \<open>0x1F\<close>, the space, \<open>0x85\<close> and the no-break space \<open>0xA0\<close>.
\<close>

definition isspace :: "char \<Rightarrow> bool" where
  "isspace c \<longleftrightarrow> (of_char c :: nat) \<in> {9, 10, 11, 12, 13, 28, 29, 30, 31, 32, 133, 160}"

definition rstrip :: "string \<Rightarrow> string" where
  "rstrip s = rev (dropWhile isspace (rev s))"

text \<open>
  Reading one line from a text: the line with its terminator (the last line of a text
  may lack one) and the text after it. \<^verbatim>\<open>next(f)\<close> raises \<open>StopIteration\<close> when
  nothing is left to read.
\<close>

fun read_line :: "string \<Rightarrow> string \<times> string" where
  "read_line [] = ([], [])"
| "read_line (c # cs) =
     (if c = CHR ''\<newline>'' then ([c], cs)
      else (case read_line cs of (l, r) \<Rightarrow> (c # l, r)))"

definition next_line :: "string \<Rightarrow> error + string \<times> string" where
  "next_line f = (if f = [] then Inl StopIteration else Inr (read_line f))"

text \<open>The lines of a text, without their terminators.\<close>

fun text_lines :: "string \<Rightarrow> string list" where
  "text_lines [] = []"
| "text_lines (c # cs) =
     (if c = CHR ''\<newline>'' then [] # text_lines cs
      else (case text_lines cs of [] \<Rightarrow> [[c]] | l # ls \<Rightarrow> (c # l) # ls))"

text \<open>
  \<^verbatim>\<open>dict(pairs)\<close>: a later pair with a key already present replaces the value and
  keeps the key's place.
\<close>

definition dict :: "('k \<times> 'v) list \<Rightarrow> ('k \<times> 'v) list" where
  "dict pairs = foldl (\<lambda>d (k, v). AList.update k v d) [] pairs"

section \<open>Numbers as text\<close>

text \<open>
  Modelled from the spec: the text of an integer value, decimal digits after a minus sign
  for a negative one, as in the specification's scenario (\<open>1\<close>, \<open>2\<close>).
\<close>

definition digit_char :: "nat \<Rightarrow> char" where
  "digit_char d = char_of (48 + d)"

text \<open>Modelled from the spec: the decimal digits of a natural number.\<close>

fun str_nat :: "nat \<Rightarrow> string" where
  "str_nat n = (if n < 10 then [digit_char n] else str_nat (n div 10) @ [digit_char (n mod 10)])"

declare str_nat.simps [simp del]

text \<open>Modelled from the spec: the text of an integer, with its sign.\<close>

definition str_int :: "int \<Rightarrow> string" where
  "str_int i = (if i < 0 then CHR ''-'' # str_nat (nat (- i)) else str_nat (nat i))"

text \<open>
  Modelled from the spec: parsing a text as an integer; a text that is not an optional
  minus sign followed by one or more decimal digits does not parse.
\<close>

definition is_digit :: "char \<Rightarrow> bool" where
  "is_digit c \<longleftrightarrow> 48 \<le> (of_char c :: nat) \<and> (of_char c :: nat) \<le> 57"

text \<open>Modelled from the spec: the number a text of decimal digits denotes.\<close>

definition nat_of_str :: "string \<Rightarrow> nat option" where
  "nat_of_str s =
     (if s \<noteq> [] \<and> list_all is_digit s
      then Some (foldl (\<lambda>a c. 10 * a + (of_char c - 48)) 0 s) else None)"

text \<open>Modelled from the spec: the integer a text denotes, if it denotes one.\<close>

definition int_of_str :: "string \<Rightarrow> int option" where
  "int_of_str s =
     (case s of
        c # cs \<Rightarrow>
          (if c = CHR ''-'' then map_option (\<lambda>n. - int n) (nat_of_str cs)
           else map_option int (nat_of_str s))
      | [] \<Rightarrow> None)"

text \<open>
  Modelled from the spec: the text of a floating-point value. The specification keeps a
  floating-point value to the precision of the text the library prints for it by
  default, so a value is held here as that text: an optional minus sign, decimal digits,
  optionally a point and more digits, optionally an exponent (\<open>e\<close>, an optional sign,
  digits). First the characters such a text is made of, then its parts.
\<close>

definition float_char :: "char \<Rightarrow> bool" where
  "float_char c \<longleftrightarrow>
     is_digit c \<or> c = CHR ''.'' \<or> c = CHR ''e'' \<or> c = CHR ''-'' \<or> c = CHR ''+''"

text \<open>Modelled from the spec: one or more decimal digits.\<close>

definition is_digits :: "string \<Rightarrow> bool" where
  "is_digits s \<longleftrightarrow> s \<noteq> [] \<and> list_all is_digit s"

text \<open>
  Modelled from the spec: digits with an optional point and more digits, after an
  optional minus sign.
\<close>

definition is_decimal :: "string \<Rightarrow> bool" where
  "is_decimal s =
     (case split CHR ''.'' (case s of c # cs \<Rightarrow> if c = CHR ''-'' then cs else s | [] \<Rightarrow> s) of
        [whole] \<Rightarrow> is_digits whole
      | [whole, fraction] \<Rightarrow> is_digits whole \<and> is_digits fraction
      | _ \<Rightarrow> False)"

text \<open>Modelled from the spec: digits after an optional sign.\<close>

definition is_exponent :: "string \<Rightarrow> bool" where
  "is_exponent s =
     is_digits (case s of c # cs \<Rightarrow> if c = CHR ''-'' \<or> c = CHR ''+'' then cs else s | [] \<Rightarrow> s)"

text \<open>Modelled from the spec: the texts that denote a floating-point value.\<close>

definition is_float_text :: "string \<Rightarrow> bool" where
  "is_float_text s \<longleftrightarrow>
     list_all float_char s
     \<and> (case split CHR ''e'' s of
          [mantissa] \<Rightarrow> is_decimal mantissa
        | [mantissa, exponent] \<Rightarrow> is_decimal mantissa \<and> is_exponent exponent
        | _ \<Rightarrow> False)"

section \<open>Datasets\<close>

text \<open>
  Modelled from the spec: the table type of the tabular-data library (pandas'
  \<^verbatim>\<open>DataFrame\<close>), which is not part of the source. Of the scalar types of the data
  model, three are modelled: integers, with the type tag \<open>int64\<close>, floating-point
  values, with the type tag \<open>float64\<close>, and strings, with the type tag \<open>object\<close>.
  The specification does not say how a boolean, a date/time, a categorical or a missing
  value is written; they are not modelled.
\<close>

datatype dtype = Int64 | Float64 | Object

text \<open>
  Modelled from the spec: \<^verbatim>\<open>str(dtype)\<close> of the tabular-data library, the type tag
  written to the first line of a file.
\<close>

fun str_dtype :: "dtype \<Rightarrow> string" where
  "str_dtype Int64 = ''int64''"
| "str_dtype Float64 = ''float64''"
| "str_dtype Object = ''object''"

text \<open>
  Modelled from the spec: the library's reading of a type tag; a tag outside the closed
  set of supported types names no type.
\<close>

definition dtype_of_tag :: "string \<Rightarrow> dtype option" where
  "dtype_of_tag tag =
     (if tag = ''int64'' then Some Int64
      else if tag = ''float64'' then Some Float64
      else if tag = ''object'' then Some Object
      else None)"

text \<open>
  Modelled from the spec: a cell value of the library's table. A floating-point value is
  held as the text the library prints for it.
\<close>

datatype cell = IntCell int | FloatCell string | StrCell string

text \<open>
  Modelled from the spec: the library's table, an ordered sequence of named, typed
  columns and an ordered sequence of rows.
\<close>

record dataset =
  columns :: "string list"
  dtypes :: "dtype list"
  rows :: "cell list list"

text \<open>
  Modelled from the spec: the invariant of the data model. Column names are unique, there
  is one declared type per column, and every row has one value per column, of the
  column's type. First, a value of a column's type.
\<close>

fun cell_has_type :: "dtype \<Rightarrow> cell \<Rightarrow> bool" where
  "cell_has_type Int64 (IntCell i) = True"
| "cell_has_type Float64 (FloatCell s) = is_float_text s"
| "cell_has_type Object (StrCell s) = True"
| "cell_has_type t c = False"

text \<open>
  Modelled from the spec: the invariant of the data model, for a whole table.
\<close>

definition valid_dataset :: "dataset \<Rightarrow> bool" where
  "valid_dataset d \<longleftrightarrow>
     distinct (columns d) \<and> length (dtypes d) = length (columns d)
     \<and> (\<forall>row \<in> set (rows d). list_all2 cell_has_type (dtypes d) row)"

text \<open>
  A text with no comma and no newline in it, a newline being a line feed or a carriage
  return; and a cell whose string value, if it is one, is of this kind.
\<close>

definition plain :: "string \<Rightarrow> bool" where
  "plain s \<longleftrightarrow> CHR '','' \<notin> set s \<and> CHR ''\<newline>'' \<notin> set s \<and> CHR 0x0D \<notin> set s"

fun plain_cell :: "cell \<Rightarrow> bool" where
  "plain_cell (StrCell s) = plain s"
| "plain_cell c = True"

section \<open>The library's writer and reader\<close>

text \<open>
  Modelled from the spec: \<^verbatim>\<open>dataset.to_csv(f, index=False, lineterminator="\n")\<close> of
  the tabular-data library, which is not part of the source. It writes one line of the
  column names joined by commas, then one line per row of the row's values joined by
  commas, each line ended by the line terminator, with no row index and no quoting.
\<close>

fun format_cell :: "cell \<Rightarrow> string" where
  "format_cell (IntCell i) = str_int i"
| "format_cell (FloatCell s) = s"
| "format_cell (StrCell s) = s"

text \<open>Modelled from the spec: the line the writer writes for one row.\<close>

definition format_row :: "cell list \<Rightarrow> string" where
  "format_row row = join '','' (map format_cell row) @ ''\<newline>''"

text \<open>
  Modelled from the spec: the text the writer writes for a table, the line of names
  first. It raises no error.
\<close>

definition to_csv :: "dataset \<Rightarrow> error + string" where
  "to_csv d = Inr (join '','' (columns d) @ ''\<newline>'' @ concat (map format_row (rows d)))"

text \<open>
  Modelled from the spec: the coercion of one field to a declared type; it fails with a
  \<open>TypeCoercionError\<close> when the field does not parse as the type.
\<close>

fun coerce :: "dtype \<Rightarrow> string \<Rightarrow> error + cell" where
  "coerce Int64 s =
     (case int_of_str s of None \<Rightarrow> Inl TypeCoercionError | Some i \<Rightarrow> Inr (IntCell i))"
| "coerce Float64 s = (if is_float_text s then Inr (FloatCell s) else Inl TypeCoercionError)"
| "coerce Object s = Inr (StrCell s)"

text \<open>Modelled from the spec: the coercion of the fields of a row, column by column.\<close>

fun coerce_row :: "dtype list \<Rightarrow> string list \<Rightarrow> error + cell list" where
  "coerce_row (t # ts) (s # ss) =
     (case coerce t s of
        Inl e \<Rightarrow> Inl e
      | Inr c \<Rightarrow> (case coerce_row ts ss of Inl e \<Rightarrow> Inl e | Inr cs \<Rightarrow> Inr (c # cs)))"
| "coerce_row ts ss = Inr []"

text \<open>Modelled from the spec: the coercion of all rows, in order.\<close>

fun coerce_rows :: "dtype list \<Rightarrow> string list list \<Rightarrow> error + cell list list" where
  "coerce_rows ts [] = Inr []"
| "coerce_rows ts (fs # fss) =
     (case coerce_row ts fs of
        Inl e \<Rightarrow> Inl e
      | Inr r \<Rightarrow> (case coerce_rows ts fss of Inl e \<Rightarrow> Inl e | Inr rs \<Rightarrow> Inr (r # rs)))"

text \<open>
  Modelled from the spec: the declared type of each named column, looked up in the
  name-to-tag dictionary the reader is given. A tag that names no supported type is a
  \<open>TypeCoercionError\<close>; a name the dictionary does not hold has no declared type, and its
  column is left as text.
\<close>

fun declared_types :: "(string \<times> string) list \<Rightarrow> string list \<Rightarrow> error + dtype list" where
  "declared_types dtype [] = Inr []"
| "declared_types dtype (name # names) =
     (case (case map_of dtype name of
              None \<Rightarrow> Inr Object
            | Some tag \<Rightarrow>
                (case dtype_of_tag tag of None \<Rightarrow> Inl TypeCoercionError | Some t \<Rightarrow> Inr t)) of
        Inl e \<Rightarrow> Inl e
      | Inr t \<Rightarrow>
          (case declared_types dtype names of Inl e \<Rightarrow> Inl e | Inr ts \<Rightarrow> Inr (t # ts)))"

text \<open>
  Modelled from the spec: \<^verbatim>\<open>pd.read_csv(f, dtype=..., names=...)\<close> of the
  tabular-data library, which is not part of the source. It parses the lines left in the
  text as comma-delimited rows: a row whose field count differs from the number of names
  is a \<open>FormatError\<close>; otherwise every column's values are coerced to the column's
  declared type, a value that does not parse being a \<open>TypeCoercionError\<close>. No line
  gives a table with no rows.
\<close>

definition read_csv :: "string \<Rightarrow> (string \<times> string) list \<Rightarrow> string list \<Rightarrow> error + dataset" where
  "read_csv f dtype names =
     (let records = map (split CHR '','') (text_lines f)
      in if \<exists>fs \<in> set records. length fs \<noteq> length names then Inl FormatError
         else
           (case declared_types dtype names of
              Inl e \<Rightarrow> Inl e
            | Inr ts \<Rightarrow>
                (case coerce_rows ts records of
                   Inl e \<Rightarrow> Inl e
                 | Inr rs \<Rightarrow> Inr \<lparr>columns = names, dtypes = ts, rows = rs\<rparr>)))"


section \<open>Files and the two codec functions\<close>

text \<open>
  The file store maps a file name to the file's text. \<open>open_handles\<close> lists the file
  handles that are open (by file name, one entry per handle), \<open>opens\<close> counts the calls
  of \<^verbatim>\<open>open\<close> made so far.
\<close>

record world =
  files :: "string \<Rightarrow> string option"
  open_handles :: "string list"
  opens :: nat

text \<open>
  \<^verbatim>\<open>open(filename, "wt")\<close> creates the file or empties it and gives a handle. The file
  store has no directories and no permissions, so this call does not fail.
\<close>

definition open_wt :: "string \<Rightarrow> world \<Rightarrow> world" where
  "open_wt filename w =
     w\<lparr>files := (files w)(filename \<mapsto> []),
       open_handles := filename # open_handles w,
       opens := Suc (opens w)\<rparr>"

text \<open>
  Reading in text mode translates the line ends: a carriage return followed by a line
  feed, and a carriage return alone, are read as one line feed.
\<close>

fun universal_newlines :: "string \<Rightarrow> string" where
  "universal_newlines [] = []"
| "universal_newlines [c] = [if c = CHR 0x0D then CHR ''\<newline>'' else c]"
| "universal_newlines (c # d # cs) =
     (if c = CHR 0x0D \<and> d = CHR ''\<newline>'' then CHR ''\<newline>'' # universal_newlines cs
      else if c = CHR 0x0D then CHR ''\<newline>'' # universal_newlines (d # cs)
      else c # universal_newlines (d # cs))"

text \<open>
  \<^verbatim>\<open>open(filename, "rt")\<close> gives a handle on the file's text, read with this
  translation, or raises \<open>FileNotFoundError\<close> (and gives no handle) when there is no
  such file.
\<close>

definition open_rt :: "string \<Rightarrow> world \<Rightarrow> (error + string) \<times> world" where
  "open_rt filename w =
     (case files w filename of
        None \<Rightarrow> (Inl FileNotFoundError, w\<lparr>opens := Suc (opens w)\<rparr>)
      | Some txt \<Rightarrow>
          (Inr (universal_newlines txt),
           w\<lparr>open_handles := filename # open_handles w, opens := Suc (opens w)\<rparr>))"

text \<open>
  \<^verbatim>\<open>f.write(s)\<close> on a handle opened for writing appends to the file's text. The
  characters are stored as they are written (the platform's line separator being the
  line feed).
\<close>

definition f_write :: "string \<Rightarrow> string \<Rightarrow> world \<Rightarrow> world" where
  "f_write filename s w =
     w\<lparr>files := (files w)(filename \<mapsto> (case files w filename of None \<Rightarrow> s | Some t \<Rightarrow> t @ s))\<rparr>"

text \<open>Leaving a \<^verbatim>\<open>with\<close> block closes its handle.\<close>

definition close :: "string \<Rightarrow> world \<Rightarrow> world" where
  "close filename w = w\<lparr>open_handles := remove1 filename (open_handles w)\<rparr>"

text \<open>
  \<^verbatim>\<open>
  def save_dataset(filename, dataset):
      with open(filename, "wt") as f:
          f.write(",".join(map(str, dataset.dtypes)) + "\n")
          dataset.to_csv(f, index=False, lineterminator="\n")
  \<close>
  The library's writer is the parameter \<open>writer\<close>: it gives the text it writes to the
  handle, or the error it raises. The \<^verbatim>\<open>with\<close> block is left, and the handle closed,
  after either.
\<close>

definition save_dataset ::
  "(dataset \<Rightarrow> error + string) \<Rightarrow> string \<Rightarrow> dataset \<Rightarrow> world \<Rightarrow> (error + unit) \<times> world" where
  "save_dataset writer filename dataset w =
     (let w1 = open_wt filename w;
          w2 = f_write filename (join '','' (map str_dtype (dtypes dataset)) @ ''\<newline>'') w1;
          (result, w3) =
            (case writer dataset of
               Inl e \<Rightarrow> (Inl e, w2)
             | Inr txt \<Rightarrow> (Inr (), f_write filename txt w2))
      in (result, close filename w3))"

text \<open>
  \<^verbatim>\<open>
  def load_dataset(filename):
      with open(filename, "rt") as f:
          types = next(f).rstrip().split(",")[0:]
          columns = next(f).rstrip().split(",")[0:]
          return pd.read_csv(f, dtype=dict(zip(columns, types)), names=columns)
  \<close>
  The body of the \<^verbatim>\<open>with\<close> block, on the text \<open>f\<close> the handle has yet to read. The
  library's reader is the parameter \<open>reader\<close>: it is given the text left after the two
  header lines, the dictionary and the names.
\<close>

definition load_body ::
  "(string \<Rightarrow> (string \<times> string) list \<Rightarrow> string list \<Rightarrow> error + 'd) \<Rightarrow> string \<Rightarrow> error + 'd" where
  "load_body reader f =
     (case next_line f of
        Inl e \<Rightarrow> Inl e
      | Inr (line1, f1) \<Rightarrow>
          (let types = split CHR '','' (rstrip line1)
           in case next_line f1 of
                Inl e \<Rightarrow> Inl e
              | Inr (line2, f2) \<Rightarrow>
                  (let columns = split CHR '','' (rstrip line2)
                   in reader f2 (dict (zip columns types)) columns)))"

definition load_dataset ::
  "(string \<Rightarrow> (string \<times> string) list \<Rightarrow> string list \<Rightarrow> error + 'd) \<Rightarrow> string \<Rightarrow> world
   \<Rightarrow> (error + 'd) \<times> world" where
  "load_dataset reader filename w =
     (case open_rt filename w of
        (Inl e, w1) \<Rightarrow> (Inl e, w1)
      | (Inr f, w1) \<Rightarrow> (load_body reader f, close filename w1))"

text \<open>
  What \<^verbatim>\<open>load_dataset\<close> takes from a file's text \<open>f\<close>: \<^verbatim>\<open>types\<close> from the first
  line, \<^verbatim>\<open>columns\<close> from the second, and the fields of the lines after them.
\<close>

definition header_types :: "string \<Rightarrow> string list" where
  "header_types f = split CHR '','' (rstrip (text_lines f ! 0))"

definition header_names :: "string \<Rightarrow> string list" where
  "header_names f = split CHR '','' (rstrip (text_lines f ! 1))"

definition data_rows :: "string \<Rightarrow> string list list" where
  "data_rows f = map (split CHR '','') (drop 2 (text_lines f))"

text \<open>
  Concrete inputs: a world with no file and no open handle, a world with one file, the
  two-row table of the specification's scenario, and a table with a floating-point
  column.
\<close>

definition empty_world :: world where
  "empty_world = \<lparr>files = Map.empty, open_handles = [], opens = 0\<rparr>"

definition one_file :: "string \<Rightarrow> string \<Rightarrow> world" where
  "one_file filename txt = \<lparr>files = [filename \<mapsto> txt], open_handles = [], opens = 0\<rparr>"

definition cities :: dataset where
  "cities = \<lparr>columns = [''id'', ''name''], dtypes = [Int64, Object],
     rows = [[IntCell 1, StrCell ''Helsinki''], [IntCell 2, StrCell ''Turku'']]\<rparr>"


section \<open>Properties of the lookups\<close>

lemma values0_loc:
  "values0 (loc sel column table) =
     (case find sel table of None \<Rightarrow> Inl IndexError | Some r \<Rightarrow> Inr (column r))"
  by (induction table) (simp_all add: loc_def values0_def)

lemma loc_empty_iff: "loc sel column table = [] \<longleftrightarrow> find sel table = None"
  by (induction table) (simp_all add: loc_def)

lemma get_rid_by_mid_miss:
  "find (\<lambda>r. municipality_id r = mid) mappings = None \<Longrightarrow> get_rid_by_mid mid mappings = Inr None"
  by (simp add: get_rid_by_mid_def loc_empty_iff)

lemma get_mid_by_name_miss:
  "find (municipality_mask name) mappings = None \<Longrightarrow> get_mid_by_name name mappings = Inr None"
  by (simp add: get_mid_by_name_def loc_empty_iff)

lemma get_rid_by_name_miss:
  "find (region_mask name) mappings = None \<Longrightarrow> name \<noteq> ''WHOLE COUNTRY''
   \<Longrightarrow> get_rid_by_name name mappings = Inr None"
  by (simp add: get_rid_by_name_def loc_empty_iff)

lemma get_name_by_mid_miss:
  "find (\<lambda>r. municipality_id r = mid) mappings = None
   \<Longrightarrow> get_name_by_mid mid mappings = Inl IndexError"
  by (simp add: get_name_by_mid_def values0_loc)

text \<open>
  C3. A lookup with no matching row gives \<open>None\<close> and never raises. The lookup of a
  municipality's name by its id does not: asked for municipality 5 in a table that holds
  Helsinki (91) and Turku (853) only, it ends with \<open>IndexError\<close>, where the lookup
  of the region id by the same key gives \<open>None\<close>.
\<close>

theorem get_name_by_mid_miss_raises:
  "get_name_by_mid 5 [helsinki, turku] = Inl IndexError
   \<and> get_rid_by_mid 5 [helsinki, turku] = Inr None"
  by (simp add: get_name_by_mid_def get_rid_by_mid_def loc_def values0_def
      helsinki_def turku_def)

text \<open>
  C7, as stated: for every name and table, the lookup by name gives the identifier of the
  first row one of whose three name columns equals the name. It fails for
  \<^verbatim>\<open>get_rid_by_name\<close> at the name \<open>WHOLE COUNTRY\<close>: in a table whose first (and
  only) matching row has region id 7, the answer is 0.
\<close>

theorem get_rid_by_name_first_match_counterexample:
  "find (region_mask ''WHOLE COUNTRY'') [helsinki, whole_country_row] = Some whole_country_row
   \<and> region_id whole_country_row = 7
   \<and> get_rid_by_name ''WHOLE COUNTRY'' [helsinki, whole_country_row] = Inr (Some 0)"
  by (simp add: get_rid_by_name_def region_mask_def helsinki_def whole_country_row_def)

text \<open>
  C7, amended: for every name and table, \<^verbatim>\<open>get_mid_by_name\<close> gives the municipality
  id of the first row, in table order, whose Finnish, Swedish or English municipality
  name equals the name exactly (and \<open>None\<close> when there is none); for every name other
  than \<open>WHOLE COUNTRY\<close>, \<^verbatim>\<open>get_rid_by_name\<close> gives the region id of the first row
  whose Finnish, Swedish or English region name equals the name exactly.
\<close>

theorem name_lookups_first_match:
  "get_mid_by_name name mappings
     = Inr (map_option municipality_id
         (find (\<lambda>r. municipality_fi r = name \<or> municipality_sv r = name
                     \<or> municipality_en r = name) mappings))
   \<and> (name \<noteq> ''WHOLE COUNTRY'' \<longrightarrow>
        get_rid_by_name name mappings
          = Inr (map_option region_id
              (find (\<lambda>r. region_fi r = name \<or> region_sv r = name \<or> region_en r = name)
                 mappings)))"
proof -
  have m: "municipality_mask name
             = (\<lambda>r. municipality_fi r = name \<or> municipality_sv r = name
                     \<or> municipality_en r = name)"
    by (rule ext) (simp add: municipality_mask_def)
  have r: "region_mask name
             = (\<lambda>r. region_fi r = name \<or> region_sv r = name \<or> region_en r = name)"
    by (rule ext) (simp add: region_mask_def)
  have a: "get_mid_by_name name mappings
             = Inr (map_option municipality_id (find (municipality_mask name) mappings))"
    by (simp add: get_mid_by_name_def Let_def loc_empty_iff values0_loc split: option.splits)
  have b: "name \<noteq> ''WHOLE COUNTRY'' \<Longrightarrow>
           get_rid_by_name name mappings
             = Inr (map_option region_id (find (region_mask name) mappings))"
    by (simp add: get_rid_by_name_def Let_def loc_empty_iff values0_loc split: option.splits)
  from a b show ?thesis
    unfolding m r by simp
qed

theorem name_lookups_first_match_witness:
  "''Nyland'' \<noteq> ''WHOLE COUNTRY''
   \<and> get_rid_by_name ''Nyland'' [turku, espoo, helsinki] = Inr (Some 1)
   \<and> get_mid_by_name ''Nyland'' [turku, espoo, helsinki] = Inr None
   \<and> get_mid_by_name ''Esbo'' [turku, espoo, helsinki] = Inr (Some 49)
   \<and> get_mid_by_name ''esbo'' [turku, espoo, helsinki] = Inr None"
  using name_lookups_first_match [of "''Nyland''" "[turku, espoo, helsinki]"]
    name_lookups_first_match [of "''Esbo''" "[turku, espoo, helsinki]"]
    name_lookups_first_match [of "''esbo''" "[turku, espoo, helsinki]"]
  by (simp add: turku_def espoo_def helsinki_def)

text \<open>
  C9. Whatever the mapping table holds, \<^verbatim>\<open>get_rid_by_name\<close> answers 0 for the name
  \<open>WHOLE COUNTRY\<close>: the table is not read, so neither an absent row nor a row that
  carries this name under another id changes the answer.
\<close>

theorem get_rid_by_name_whole_country:
  "get_rid_by_name ''WHOLE COUNTRY'' mappings = Inr (Some 0)"
  by (simp add: get_rid_by_name_def)

section \<open>Properties of the quarter ends\<close>

text \<open>
  C10, as stated: for every year, quarters 1 to 4 give the last day of the quarter. It
  fails for the year 0, which the constructor of timestamps does not take: the call for
  quarter 1 raises \<open>ValueError\<close>.
\<close>

theorem get_last_day_of_quarter_year_counterexample:
  "get_last_day_of_quarter Timestamp 0 1 = Inl ValueError"
  by (simp add: get_last_day_of_quarter_def returning_def Timestamp_def)

text \<open>
  C10, amended: for every year, \<^verbatim>\<open>get_last_day_of_quarter\<close> gives for the quarters 1,
  2, 3 and 4 what the constructor of timestamps gives for March 31, June 30, September 30
  and December 31 of that year: that timestamp when the constructor takes the date, the
  constructor's error when it does not. For every other quarter value it gives \<open>None\<close>
  and raises nothing, whatever the year.
\<close>

theorem get_last_day_of_quarter_cases:
  "get_last_day_of_quarter mk y 1
     = (case mk y 3 31 of Inl e \<Rightarrow> Inl e | Inr t \<Rightarrow> Inr (Some t))
   \<and> get_last_day_of_quarter mk y 2
     = (case mk y 6 30 of Inl e \<Rightarrow> Inl e | Inr t \<Rightarrow> Inr (Some t))
   \<and> get_last_day_of_quarter mk y 3
     = (case mk y 9 30 of Inl e \<Rightarrow> Inl e | Inr t \<Rightarrow> Inr (Some t))
   \<and> get_last_day_of_quarter mk y 4
     = (case mk y 12 31 of Inl e \<Rightarrow> Inl e | Inr t \<Rightarrow> Inr (Some t))
   \<and> (quarter \<notin> {1, 2, 3, 4} \<longrightarrow> get_last_day_of_quarter mk y quarter = Inr None)"
  by (simp add: get_last_day_of_quarter_def returning_def)

theorem get_last_day_of_quarter_cases_witness:
  "(5::int) \<notin> {1, 2, 3, 4}
   \<and> get_last_day_of_quarter Timestamp 2024 5 = Inr None
   \<and> get_last_day_of_quarter Timestamp 0 5 = Inr None
   \<and> get_last_day_of_quarter Timestamp 2024 1 = Inr (Some \<lparr>year = 2024, month = 3, day = 31\<rparr>)
   \<and> get_last_day_of_quarter Timestamp 2024 2 = Inr (Some \<lparr>year = 2024, month = 6, day = 30\<rparr>)
   \<and> get_last_day_of_quarter Timestamp 2024 3 = Inr (Some \<lparr>year = 2024, month = 9, day = 30\<rparr>)
   \<and> get_last_day_of_quarter Timestamp 2024 4 = Inr (Some \<lparr>year = 2024, month = 12, day = 31\<rparr>)
   \<and> get_last_day_of_quarter Timestamp 10000 4 = Inl ValueError"
  using get_last_day_of_quarter_cases [of Timestamp 2024 5]
    get_last_day_of_quarter_cases [of Timestamp 0 5]
    get_last_day_of_quarter_cases [of Timestamp 10000 5]
  by (simp add: Timestamp_def)

section \<open>Properties of the text operations\<close>

lemma split_no_sep: "sep \<notin> set x \<Longrightarrow> split sep x = [x]"
  by (induction x) auto

lemma split_append_sep:
  "sep \<notin> set x \<Longrightarrow> split sep (x @ sep # r) = x # split sep r"
  by (induction x) auto

lemma split_join:
  "xs \<noteq> [] \<Longrightarrow> \<forall>x \<in> set xs. sep \<notin> set x \<Longrightarrow> split sep (join [sep] xs) = xs"
  by (induction "[sep]" xs rule: join.induct) (auto simp: split_no_sep split_append_sep)

lemma split_nonempty: "split sep s \<noteq> []"
  by (cases s) (auto split: list.splits)

lemma length_split: "length (split sep s) = Suc (length (filter (\<lambda>c. c = sep) s))"
  by (induction s) (auto split: list.splits simp: split_nonempty)

lemma read_line_append:
  "CHR ''\<newline>'' \<notin> set l \<Longrightarrow> read_line (l @ CHR ''\<newline>'' # r) = (l @ ''\<newline>'', r)"
  by (induction l) auto

lemma text_lines_append:
  "CHR ''\<newline>'' \<notin> set l \<Longrightarrow> text_lines (l @ CHR ''\<newline>'' # r) = l # text_lines r"
  by (induction l) auto

lemma text_lines_concat:
  "\<forall>l \<in> set ls. CHR ''\<newline>'' \<notin> set l
   \<Longrightarrow> text_lines (concat (map (\<lambda>l. l @ ''\<newline>'') ls)) = ls"
  by (induction ls) (auto simp: text_lines_append)

lemma isspace_newline: "isspace CHR ''\<newline>''"
  by (simp add: isspace_def)

lemma rstrip_append_newline: "rstrip (s @ ''\<newline>'') = rstrip s"
  by (simp add: rstrip_def isspace_newline)

lemma rstrip_id: "s = [] \<or> \<not> isspace (last s) \<Longrightarrow> rstrip s = s"
  by (cases s rule: rev_cases) (auto simp: rstrip_def)

lemma set_join: "set (join sep xs) \<subseteq> set sep \<union> \<Union> (set ` set xs)"
  by (induction sep xs rule: join.induct) auto

lemma join_empty: "join sep xs = [] \<Longrightarrow> sep \<noteq> [] \<Longrightarrow> xs = [] \<or> xs = [[]]"
  by (induction sep xs rule: join.induct) auto

lemma join_end:
  "sep \<noteq> [] \<Longrightarrow> join sep xs = []
     \<or> last (join sep xs) = (if xs \<noteq> [] \<and> last xs \<noteq> [] then last (last xs) else last sep)"
proof (induction sep xs rule: join.induct)
  case (3 sep x y ys)
  show ?case
  proof (cases "join sep (y # ys) = []")
    case True
    with 3 have "y # ys = [[]]" using join_empty by blast
    with 3 show ?thesis by simp
  next
    case False
    with 3 show ?thesis by simp
  qed
qed simp_all

lemma text_lines_read_line: "text_lines (snd (read_line f)) = tl (text_lines f)"
  by (induction f) (auto split: prod.splits list.splits)

lemma text_lines_empty_iff: "text_lines f = [] \<longleftrightarrow> f = []"
  by (cases f) (auto split: list.splits)

lemma fst_read_line:
  "f \<noteq> [] \<Longrightarrow> fst (read_line f) = hd (text_lines f)
     \<or> fst (read_line f) = hd (text_lines f) @ ''\<newline>''"
proof (induction f)
  case Nil
  then show ?case by simp
next
  case (Cons a f)
  show ?case
  proof (cases "f = []")
    case True
    then show ?thesis by simp
  next
    case False
    then have "text_lines f \<noteq> []" by (simp add: text_lines_empty_iff)
    with Cons False show ?thesis
      by (auto split: prod.splits list.splits)
  qed
qed

lemma rstrip_fst_read_line:
  "f \<noteq> [] \<Longrightarrow> rstrip (fst (read_line f)) = rstrip (hd (text_lines f))"
  using fst_read_line [of f] rstrip_append_newline by auto

section \<open>Integers as text, and dictionaries\<close>

lemma of_char_digit_char: "d < 10 \<Longrightarrow> (of_char (digit_char d) :: nat) = 48 + d"
  by (simp add: digit_char_def)

lemma is_digit_digit_char: "d < 10 \<Longrightarrow> is_digit (digit_char d)"
  by (simp add: is_digit_def of_char_digit_char)

lemma str_nat_nonempty: "str_nat n \<noteq> []"
  by (subst str_nat.simps) simp

lemma str_nat_digits: "list_all is_digit (str_nat n)"
proof (induction n rule: str_nat.induct)
  case (1 n)
  show ?case
  proof (cases "n < 10")
    case True
    then show ?thesis by (subst str_nat.simps) (simp add: is_digit_digit_char)
  next
    case False
    with 1 show ?thesis by (subst str_nat.simps) (simp add: is_digit_digit_char)
  qed
qed

lemma foldl_str_nat:
  "foldl (\<lambda>a c. 10 * a + (of_char c - 48)) 0 (str_nat n) = n"
proof (induction n rule: str_nat.induct)
  case (1 n)
  show ?case
  proof (cases "n < 10")
    case True
    then show ?thesis by (subst str_nat.simps) (simp add: of_char_digit_char)
  next
    case False
    with 1 show ?thesis by (subst str_nat.simps) (simp add: of_char_digit_char)
  qed
qed

lemma nat_of_str_str_nat: "nat_of_str (str_nat n) = Some n"
  by (simp add: nat_of_str_def str_nat_nonempty str_nat_digits foldl_str_nat)

lemma minus_not_digit: "\<not> is_digit CHR ''-''"
  by (simp add: is_digit_def)

lemma hd_str_nat_not_minus: "str_nat n = c # cs \<Longrightarrow> c \<noteq> CHR ''-''"
  using str_nat_digits [of n] minus_not_digit by auto

lemma int_of_str_str_int: "int_of_str (str_int i) = Some i"
proof (cases "i < 0")
  case True
  then show ?thesis by (simp add: int_of_str_def str_int_def nat_of_str_str_nat)
next
  case False
  obtain c cs where s: "str_nat (nat i) = c # cs"
    using str_nat_nonempty [of "nat i"] by (cases "str_nat (nat i)") auto
  from s have "c \<noteq> CHR ''-''" by (rule hd_str_nat_not_minus)
  with False s show ?thesis
    using nat_of_str_str_nat [of "nat i"] by (simp add: int_of_str_def str_int_def)
qed

lemma is_digit_not_delim:
  "is_digit c \<Longrightarrow> c \<noteq> CHR '','' \<and> c \<noteq> CHR ''\<newline>'' \<and> c \<noteq> CHR 0x0D"
  by (auto simp: is_digit_def)

lemma plain_str_int: "plain (str_int i)"
  using str_nat_digits [of "nat i"] str_nat_digits [of "nat (- i)"] is_digit_not_delim
  by (auto simp: str_int_def list_all_iff plain_def)

lemma float_char_not_delim:
  "float_char c \<Longrightarrow> c \<noteq> CHR '','' \<and> c \<noteq> CHR ''\<newline>'' \<and> c \<noteq> CHR 0x0D"
  using is_digit_not_delim [of c] by (auto simp: float_char_def)

lemma plain_float_text: "is_float_text s \<Longrightarrow> plain s"
  using float_char_not_delim by (auto simp: is_float_text_def plain_def list_all_iff)

lemma universal_newlines_id: "CHR 0x0D \<notin> set s \<Longrightarrow> universal_newlines s = s"
  by (induction s rule: universal_newlines.induct) auto

lemma map_of_dict_aux:
  "map_of (foldl (\<lambda>d (k, v). AList.update k v d) acc ps) = map_of acc ++ map_of (rev ps)"
  by (induction ps arbitrary: acc) (auto simp: update_conv' map_add_def fun_eq_iff split: option.splits)

lemma map_of_dict: "map_of (dict ps) = map_of (rev ps)"
  by (simp add: dict_def map_of_dict_aux)

lemma map_of_rev_distinct: "distinct (map fst xs) \<Longrightarrow> map_of (rev xs) = map_of xs"
proof (induction xs)
  case Nil
  then show ?case by simp
next
  case (Cons a xs)
  then have "map_of xs (fst a) = None"
    by (simp add: map_of_eq_None_iff)
  with Cons show ?case
    by (cases a) (auto simp: map_add_def fun_eq_iff split: option.splits)
qed

lemma map_of_dict_distinct: "distinct (map fst ps) \<Longrightarrow> map_of (dict ps) = map_of ps"
  by (simp add: map_of_dict map_of_rev_distinct)

section \<open>What the two codec functions compute\<close>

lemma fst_save_dataset: "fst (save_dataset to_csv filename d w) = Inr ()"
  by (simp add: save_dataset_def to_csv_def Let_def)

lemma files_save_dataset:
  "files (snd (save_dataset to_csv filename d w)) filename
     = Some (join '','' (map str_dtype (dtypes d)) @ ''\<newline>''
             @ join '','' (columns d) @ ''\<newline>'' @ concat (map format_row (rows d)))"
  by (simp add: save_dataset_def to_csv_def Let_def open_wt_def f_write_def close_def)

lemma fst_load_dataset:
  "fst (load_dataset reader filename w)
     = (case files w filename of
          None \<Rightarrow> Inl FileNotFoundError
        | Some stored \<Rightarrow> load_body reader (universal_newlines stored))"
  by (simp add: load_dataset_def open_rt_def split: option.splits)

lemma load_body_short:
  "length (text_lines f) < 2 \<Longrightarrow> load_body reader f = Inl StopIteration"
proof (cases "f = []")
  case True
  then show ?thesis by (simp add: load_body_def next_line_def)
next
  case False
  assume "length (text_lines f) < 2"
  then have "tl (text_lines f) = []"
    by (cases "text_lines f") auto
  then have "snd (read_line f) = []"
    using text_lines_read_line [of f] by (simp add: text_lines_empty_iff)
  with False show ?thesis
    by (auto simp: load_body_def next_line_def split: prod.splits)
qed

lemma load_body_long:
  assumes "2 \<le> length (text_lines f)"
  shows "load_body reader f
     = reader (snd (read_line (snd (read_line f))))
         (dict (zip (split CHR '','' (rstrip (text_lines f ! 1)))
                    (split CHR '','' (rstrip (text_lines f ! 0)))))
         (split CHR '','' (rstrip (text_lines f ! 1)))"
proof -
  from assms have f: "f \<noteq> []" by auto
  let ?f1 = "snd (read_line f)"
  have t1: "text_lines ?f1 = tl (text_lines f)" by (rule text_lines_read_line)
  with assms have f1: "?f1 \<noteq> []"
    by (cases "text_lines f") (auto simp: text_lines_empty_iff [symmetric] simp del: text_lines_empty_iff)
  have l1: "rstrip (fst (read_line f)) = rstrip (text_lines f ! 0)"
    using rstrip_fst_read_line [OF f] f by (simp add: hd_conv_nth text_lines_empty_iff)
  have "rstrip (fst (read_line ?f1)) = rstrip (hd (text_lines ?f1))"
    using rstrip_fst_read_line [OF f1] .
  also have "hd (text_lines ?f1) = text_lines f ! 1"
  proof -
    have ne: "text_lines ?f1 \<noteq> []" using f1 by (simp add: text_lines_empty_iff)
    then have "hd (text_lines ?f1) = text_lines ?f1 ! 0" by (simp add: hd_conv_nth)
    also have "\<dots> = text_lines f ! 1" using ne t1 by (cases "text_lines f") auto
    finally show ?thesis .
  qed
  finally have l2: "rstrip (fst (read_line ?f1)) = rstrip (text_lines f ! 1)" .
  obtain a b where rf: "read_line f = (a, b)" by fastforce
  obtain c d where rb: "read_line b = (c, d)" by fastforce
  from f f1 l1 l2 rf rb show ?thesis
    by (simp add: load_body_def next_line_def Let_def)
qed

lemma load_body_two_lines:
  assumes "CHR ''\<newline>'' \<notin> set l1" "CHR ''\<newline>'' \<notin> set l2"
  shows "load_body reader (l1 @ ''\<newline>'' @ l2 @ ''\<newline>'' @ r)
     = reader r (dict (zip (split CHR '','' (rstrip l2)) (split CHR '','' (rstrip l1))))
         (split CHR '','' (rstrip l2))"
  using assms
  by (simp add: load_body_def next_line_def read_line_append rstrip_append_newline Let_def)

section \<open>The reader on what the writer wrote\<close>

lemma dtype_of_tag_str_dtype: "dtype_of_tag (str_dtype t) = Some t"
  by (cases t) (simp_all add: dtype_of_tag_def)

lemma plain_str_dtype: "plain (str_dtype t)"
  by (cases t) (simp_all add: plain_def)

lemma str_dtype_end: "str_dtype t \<noteq> [] \<and> \<not> isspace (last (str_dtype t))"
  by (cases t) (simp_all add: isspace_def)

lemma declared_types_ok:
  "list_all2 (\<lambda>n t. map_of d n = Some (str_dtype t)) names ts
   \<Longrightarrow> declared_types d names = Inr ts"
  by (induction names ts rule: list_all2_induct) (simp_all add: dtype_of_tag_str_dtype)

lemma dict_zip_positional:
  assumes "distinct names" "length tags = length names"
  shows "list_all2 (\<lambda>n tag. map_of (dict (zip names tags)) n = Some tag) names tags"
proof -
  have d: "distinct (map fst (zip names tags))"
    using assms by (simp add: map_fst_zip)
  show ?thesis
  proof (rule list_all2_all_nthI)
    show "length names = length tags" using assms by simp
  next
    fix i assume "i < length names"
    with assms have "map_of (zip names tags) (names ! i) = Some (tags ! i)"
      by (intro map_of_zip_nth) simp_all
    then show "map_of (dict (zip names tags)) (names ! i) = Some (tags ! i)"
      by (simp only: map_of_dict_distinct [OF d])
  qed
qed

lemma coerce_format_cell: "cell_has_type t c \<Longrightarrow> coerce t (format_cell c) = Inr c"
  by (cases t; cases c) (simp_all add: int_of_str_str_int)

lemma coerce_row_format:
  "list_all2 cell_has_type ts row \<Longrightarrow> coerce_row ts (map format_cell row) = Inr row"
  by (induction ts row rule: list_all2_induct) (simp_all add: coerce_format_cell)

lemma coerce_rows_format:
  "\<forall>row \<in> set rs. list_all2 cell_has_type ts row
   \<Longrightarrow> coerce_rows ts (map (map format_cell) rs) = Inr rs"
  by (induction rs) (simp_all add: coerce_row_format)

lemma plain_format_cell:
  "cell_has_type t c \<Longrightarrow> plain_cell c \<Longrightarrow> plain (format_cell c)"
  by (cases t; cases c) (simp_all add: plain_str_int plain_float_text)

lemma plain_format_row:
  assumes "list_all2 cell_has_type ts row" "\<forall>c \<in> set row. plain_cell c"
  shows "\<forall>c \<in> set row. plain (format_cell c)"
proof
  fix c assume "c \<in> set row"
  then obtain i where i: "i < length row" "row ! i = c"
    by (auto simp: in_set_conv_nth)
  with assms(1) have "cell_has_type (ts ! i) c"
    by (auto dest: list_all2_nthD2)
  moreover from assms(2) \<open>c \<in> set row\<close> have "plain_cell c" by blast
  ultimately show "plain (format_cell c)" by (rule plain_format_cell)
qed

lemma return_join:
  "\<forall>x \<in> set xs. plain x \<Longrightarrow> CHR 0x0D \<notin> set (join '','' xs)"
  using set_join [of "'',''" xs] by (auto simp: plain_def)

lemma newline_join:
  "\<forall>x \<in> set xs. plain x \<Longrightarrow> CHR ''\<newline>'' \<notin> set (join '','' xs)"
  using set_join [of "'',''" xs] by (auto simp: plain_def)

lemma split_join_plain:
  "xs \<noteq> [] \<Longrightarrow> \<forall>x \<in> set xs. plain x \<Longrightarrow> split CHR '','' (join '','' xs) = xs"
  using split_join [of xs "CHR '',''"] by (simp add: plain_def)

lemma text_lines_rows:
  assumes "\<forall>row \<in> set rs. \<forall>c \<in> set row. plain (format_cell c)"
  shows "text_lines (concat (map format_row rs))
           = map (\<lambda>row. join '','' (map format_cell row)) rs"
proof -
  let ?ls = "map (\<lambda>row. join '','' (map format_cell row)) rs"
  have "\<forall>l \<in> set ?ls. CHR ''\<newline>'' \<notin> set l"
    using assms by (auto intro!: newline_join)
  then have "text_lines (concat (map (\<lambda>l. l @ ''\<newline>'') ?ls)) = ?ls"
    by (rule text_lines_concat)
  moreover have "concat (map (\<lambda>l. l @ ''\<newline>'') ?ls) = concat (map format_row rs)"
    by (induction rs) (simp_all add: format_row_def)
  ultimately show ?thesis by (simp only:)
qed

lemma records_rows:
  assumes "\<forall>row \<in> set rs. row \<noteq> [] \<and> (\<forall>c \<in> set row. plain (format_cell c))"
  shows "map (split CHR '','') (text_lines (concat (map format_row rs)))
           = map (map format_cell) rs"
proof -
  have "map (split CHR '','') (map (\<lambda>row. join '','' (map format_cell row)) rs)
          = map (map format_cell) rs"
    using assms by (auto intro!: split_join_plain)
  with assms show ?thesis by (simp add: text_lines_rows)
qed

lemma read_csv_written_rows:
  assumes types: "list_all2 (\<lambda>n t. map_of d n = Some (str_dtype t)) names ts"
    and rows: "\<forall>row \<in> set rs. list_all2 cell_has_type ts row"
    and plain: "\<forall>row \<in> set rs. \<forall>c \<in> set row. plain (format_cell c)"
    and ne: "names \<noteq> []"
  shows "read_csv (concat (map format_row rs)) d names
           = Inr \<lparr>columns = names, dtypes = ts, rows = rs\<rparr>"
proof -
  have len: "length ts = length names"
    using types by (simp add: list_all2_lengthD)
  have rowlen: "\<forall>row \<in> set rs. length row = length names"
    using rows len by (metis list_all2_lengthD)
  with ne have "\<forall>row \<in> set rs. row \<noteq> []" by auto
  with plain have recs: "map (split CHR '','') (text_lines (concat (map format_row rs)))
      = map (map format_cell) rs"
    by (intro records_rows) auto
  have arity: "\<not> (\<exists>fs \<in> set (map (map format_cell) rs). length fs \<noteq> length names)"
    using rowlen by auto
  show ?thesis
    unfolding read_csv_def Let_def recs
    using arity by (simp add: declared_types_ok [OF types] coerce_rows_format [OF rows])
qed

lemma comma_not_space: "\<not> isspace CHR '',''"
  by (simp add: isspace_def)

lemma rstrip_type_line:
  assumes "ts \<noteq> []"
  shows "rstrip (join '','' (map str_dtype ts)) = join '','' (map str_dtype ts)"
proof -
  from assms have "last (map str_dtype ts) = str_dtype (last ts)"
    by (simp add: last_map)
  with assms str_dtype_end [of "last ts"] join_end [of "'',''" "map str_dtype ts"]
  show ?thesis by (intro rstrip_id) auto
qed

lemma rstrip_name_line:
  assumes "last names = [] \<or> \<not> isspace (last (last names))"
  shows "rstrip (join '','' names) = join '','' names"
  using assms join_end [of "'',''" names] comma_not_space
  by (intro rstrip_id) (auto split: if_splits)

lemma return_rows:
  "\<forall>row \<in> set rs. \<forall>c \<in> set row. plain (format_cell c)
   \<Longrightarrow> CHR 0x0D \<notin> set (concat (map format_row rs))"
proof (induction rs)
  case Nil
  then show ?case by simp
next
  case (Cons row rs)
  then have "\<forall>x \<in> set (map format_cell row). plain x" by simp
  then have "CHR 0x0D \<notin> set (join '','' (map format_cell row))"
    by (rule return_join)
  with Cons show ?case by (simp add: format_row_def)
qed

lemma load_save_core:
  assumes valid: "valid_dataset d"
    and ne: "columns d \<noteq> []"
    and names: "\<forall>name \<in> set (columns d). plain name"
    and last: "last (columns d) = [] \<or> \<not> isspace (last (last (columns d)))"
    and cells: "\<forall>row \<in> set (rows d). \<forall>c \<in> set row. plain_cell c"
  shows "fst (load_dataset read_csv filename (snd (save_dataset to_csv filename d w))) = Inr d"
proof -
  let ?tags = "map str_dtype (dtypes d)"
  let ?T = "join '','' ?tags" and ?N = "join '','' (columns d)"
  let ?R = "concat (map format_row (rows d))"
  from valid have dist: "distinct (columns d)" and len: "length (dtypes d) = length (columns d)"
    and typed: "\<forall>row \<in> set (rows d). list_all2 cell_has_type (dtypes d) row"
    by (simp_all add: valid_dataset_def)
  from typed cells have texts: "\<forall>row \<in> set (rows d). \<forall>c \<in> set row. plain (format_cell c)"
    using plain_format_row by blast
  from ne len have tne: "dtypes d \<noteq> []" by auto
  have nlT: "CHR ''\<newline>'' \<notin> set ?T"
    by (rule newline_join) (simp add: plain_str_dtype)
  have nlN: "CHR ''\<newline>'' \<notin> set ?N"
    using names by (rule newline_join)
  have crT: "CHR 0x0D \<notin> set ?T"
    by (rule return_join) (simp add: plain_str_dtype)
  have crN: "CHR 0x0D \<notin> set ?N"
    using names by (rule return_join)
  have crR: "CHR 0x0D \<notin> set ?R"
    using texts by (rule return_rows)
  have read: "universal_newlines (?T @ ''\<newline>'' @ ?N @ ''\<newline>'' @ ?R)
      = ?T @ ''\<newline>'' @ ?N @ ''\<newline>'' @ ?R"
    using crT crN crR by (intro universal_newlines_id) simp
  have sT: "split CHR '','' (rstrip ?T) = ?tags"
    using tne by (simp add: rstrip_type_line split_join_plain plain_str_dtype)
  have sN: "split CHR '','' (rstrip ?N) = columns d"
    using ne names last by (simp add: rstrip_name_line split_join_plain)
  have "list_all2 (\<lambda>n tag. map_of (dict (zip (columns d) ?tags)) n = Some tag) (columns d) ?tags"
    using dist len by (intro dict_zip_positional) simp_all
  then have pos: "list_all2 (\<lambda>n t. map_of (dict (zip (columns d) ?tags)) n = Some (str_dtype t))
      (columns d) (dtypes d)"
    by (simp add: list_all2_map2)
  have "fst (load_dataset read_csv filename (snd (save_dataset to_csv filename d w)))
      = load_body read_csv (universal_newlines (?T @ ''\<newline>'' @ ?N @ ''\<newline>'' @ ?R))"
    by (simp add: fst_load_dataset files_save_dataset)
  also have "\<dots> = load_body read_csv (?T @ ''\<newline>'' @ ?N @ ''\<newline>'' @ ?R)"
    by (simp only: read)
  also have "\<dots> = read_csv ?R (dict (zip (columns d) ?tags)) (columns d)"
    using load_body_two_lines [OF nlT nlN, of read_csv ?R] by (simp only: sT sN)
  also have "\<dots> = Inr \<lparr>columns = columns d, dtypes = dtypes d, rows = rows d\<rparr>"
    using pos typed texts ne by (rule read_csv_written_rows)
  finally show ?thesis by simp
qed

section \<open>The header lines of a file\<close>

lemma text_lines_after_headers:
  "text_lines (snd (read_line (snd (read_line f)))) = drop 2 (text_lines f)"
  by (simp add: text_lines_read_line drop_Suc numeral_2_eq_2 tl_drop)

lemma load_body_headers:
  "2 \<le> length (text_lines f) \<Longrightarrow>
   load_body reader f
     = reader (snd (read_line (snd (read_line f))))
         (dict (zip (header_names f) (header_types f))) (header_names f)"
  by (simp add: load_body_long header_names_def header_types_def)

lemma read_csv_arity:
  "\<exists>fs \<in> set (map (split CHR '','') (text_lines f)). length fs \<noteq> length names
   \<Longrightarrow> read_csv f dtype names = Inl FormatError"
  by (simp add: read_csv_def Let_def)

text \<open>
  C2, as stated: \<^verbatim>\<open>load_dataset\<close> fails with a \<open>FormatError\<close> when the first two
  lines are absent, when the two header lines differ in their field counts, or when a
  data row's field count differs from the header's, and never builds a schema from
  mismatched headers. It fails on the file \<^verbatim>\<open>int64,object / id / 1\<close>, whose first
  line has two fields and whose second has one: the call hands the reader the schema
  \<open>id \<mapsto> int64\<close> (shown with a reader that gives back what it is handed), and with
  the reader of the specification it returns a table. It fails on the empty file as
  well, where the error is \<open>StopIteration\<close>.
\<close>

theorem load_dataset_mismatched_headers_counterexample:
  "length (header_types ''int64,object\<newline>id\<newline>1\<newline>'') = 2
   \<and> length (header_names ''int64,object\<newline>id\<newline>1\<newline>'') = 1
   \<and> fst (load_dataset (\<lambda>f dtype names. Inr (dtype, names)) ''f''
         (one_file ''f'' ''int64,object\<newline>id\<newline>1\<newline>''))
       = Inr ([(''id'', ''int64'')], [''id''])
   \<and> fst (load_dataset read_csv ''f'' (one_file ''f'' ''int64,object\<newline>id\<newline>1\<newline>''))
       = Inr \<lparr>columns = [''id''], dtypes = [Int64], rows = [[IntCell 1]]\<rparr>
   \<and> fst (load_dataset read_csv ''f'' (one_file ''f'' [])) = Inl StopIteration"
  by code_simp

text \<open>
  C2, amended: with any reader, \<^verbatim>\<open>load_dataset\<close> fails with \<open>StopIteration\<close> when
  the file, as text mode reads it, has fewer than two lines; on a file of two or more
  lines it makes no check of
  the header lines: it pairs the names of the second line with the type tags of the first
  by position, up to the shorter of the two, and returns what the reader returns on the
  remaining text, that dictionary and all the names. With the reader of the
  specification, it fails with a \<open>FormatError\<close> when a data row's field count differs
  from the number of names.
\<close>

theorem load_dataset_header_handling:
  assumes "files w filename = Some stored" and "f = universal_newlines stored"
  shows "(length (text_lines f) < 2 \<longrightarrow>
            fst (load_dataset reader filename w) = Inl StopIteration)
       \<and> (2 \<le> length (text_lines f) \<longrightarrow>
            fst (load_dataset reader filename w)
              = reader (snd (read_line (snd (read_line f))))
                  (dict (zip (header_names f) (header_types f))) (header_names f))
       \<and> (2 \<le> length (text_lines f)
            \<and> (\<exists>fs \<in> set (data_rows f). length fs \<noteq> length (header_names f)) \<longrightarrow>
            fst (load_dataset read_csv filename w) = Inl FormatError)"
proof (intro conjI impI)
  assume "length (text_lines f) < 2"
  with assms show "fst (load_dataset reader filename w) = Inl StopIteration"
    by (simp add: fst_load_dataset load_body_short)
next
  assume "2 \<le> length (text_lines f)"
  with assms show "fst (load_dataset reader filename w)
      = reader (snd (read_line (snd (read_line f))))
          (dict (zip (header_names f) (header_types f))) (header_names f)"
    by (simp add: fst_load_dataset load_body_headers)
next
  assume a: "2 \<le> length (text_lines f)
    \<and> (\<exists>fs \<in> set (data_rows f). length fs \<noteq> length (header_names f))"
  then have "\<exists>fs \<in> set (map (split CHR '','')
        (text_lines (snd (read_line (snd (read_line f)))))). length fs \<noteq> length (header_names f)"
    by (simp only: text_lines_after_headers data_rows_def)
  then have "read_csv (snd (read_line (snd (read_line f))))
      (dict (zip (header_names f) (header_types f))) (header_names f) = Inl FormatError"
    by (rule read_csv_arity)
  with assms a show "fst (load_dataset read_csv filename w) = Inl FormatError"
    by (simp add: fst_load_dataset load_body_headers)
qed

theorem load_dataset_header_handling_witness:
  "fst (load_dataset read_csv ''f'' (one_file ''f'' ''int64'')) = Inl StopIteration
   \<and> fst (load_dataset read_csv ''f'' (one_file ''f'' ''int64\<newline>id\<newline>1,2\<newline>'')) = Inl FormatError
   \<and> fst (load_dataset read_csv ''f'' (one_file ''f'' ''int64\<newline>id,name\<newline>1,Oulu\<newline>''))
       = read_csv ''1,Oulu\<newline>'' [(''id'', ''int64'')] [''id'', ''name'']"
proof -
  have f1: "files (one_file ''f'' ''int64'') ''f'' = Some ''int64''"
    by (simp add: one_file_def)
  have u1: "''int64'' = universal_newlines ''int64''" by simp
  have s1: "length (text_lines ''int64'') < 2" by simp
  have f2: "files (one_file ''f'' ''int64\<newline>id\<newline>1,2\<newline>'') ''f''
      = Some ''int64\<newline>id\<newline>1,2\<newline>''"
    by (simp add: one_file_def)
  have u2: "''int64\<newline>id\<newline>1,2\<newline>'' = universal_newlines ''int64\<newline>id\<newline>1,2\<newline>''"
    by simp
  have s2: "2 \<le> length (text_lines ''int64\<newline>id\<newline>1,2\<newline>'')
      \<and> (\<exists>fs \<in> set (data_rows ''int64\<newline>id\<newline>1,2\<newline>'').
            length fs \<noteq> length (header_names ''int64\<newline>id\<newline>1,2\<newline>''))"
    by code_simp
  have f3: "files (one_file ''f'' ''int64\<newline>id,name\<newline>1,Oulu\<newline>'') ''f''
      = Some ''int64\<newline>id,name\<newline>1,Oulu\<newline>''"
    by (simp add: one_file_def)
  have u3: "''int64\<newline>id,name\<newline>1,Oulu\<newline>''
      = universal_newlines ''int64\<newline>id,name\<newline>1,Oulu\<newline>''"
    by simp
  have s3: "2 \<le> length (text_lines ''int64\<newline>id,name\<newline>1,Oulu\<newline>'')" by simp
  have e3: "snd (read_line (snd (read_line ''int64\<newline>id,name\<newline>1,Oulu\<newline>''))) = ''1,Oulu\<newline>''"
    by simp
  have h3: "header_names ''int64\<newline>id,name\<newline>1,Oulu\<newline>'' = [''id'', ''name'']"
    "header_types ''int64\<newline>id,name\<newline>1,Oulu\<newline>'' = [''int64'']"
    "dict (zip [''id'', ''name''] [''int64'']) = [(''id'', ''int64'')]"
    by code_simp+
  from load_dataset_header_handling [OF f1 u1, of read_csv] s1
  have a: "fst (load_dataset read_csv ''f'' (one_file ''f'' ''int64'')) = Inl StopIteration"
    by blast
  from load_dataset_header_handling [OF f2 u2, of read_csv] s2
  have b: "fst (load_dataset read_csv ''f'' (one_file ''f'' ''int64\<newline>id\<newline>1,2\<newline>'')) = Inl FormatError"
    by blast
  from load_dataset_header_handling [OF f3 u3, of read_csv] s3
  have "fst (load_dataset read_csv ''f'' (one_file ''f'' ''int64\<newline>id,name\<newline>1,Oulu\<newline>''))
      = read_csv (snd (read_line (snd (read_line ''int64\<newline>id,name\<newline>1,Oulu\<newline>''))))
          (dict (zip (header_names ''int64\<newline>id,name\<newline>1,Oulu\<newline>'')
                     (header_types ''int64\<newline>id,name\<newline>1,Oulu\<newline>'')))
          (header_names ''int64\<newline>id,name\<newline>1,Oulu\<newline>'')"
    by blast
  then have c: "fst (load_dataset read_csv ''f'' (one_file ''f'' ''int64\<newline>id,name\<newline>1,Oulu\<newline>''))
      = read_csv ''1,Oulu\<newline>'' [(''id'', ''int64'')] [''id'', ''name'']"
    by (simp only: e3 h3)
  from a b c show ?thesis by blast
qed

section \<open>Saving, then loading\<close>




text \<open>The same for a dataset with no rows.\<close>

lemma load_save_zero_rows:
  assumes "rows d = []"
    and "distinct (columns d)" and "length (dtypes d) = length (columns d)"
    and "columns d \<noteq> []"
    and "\<forall>name \<in> set (columns d). plain name"
    and "last (columns d) = [] \<or> \<not> isspace (last (last (columns d)))"
  shows "fst (load_dataset read_csv filename (snd (save_dataset to_csv filename d w))) = Inr d"
  using assms by (intro load_save_core) (simp_all add: valid_dataset_def)

text \<open>
  C5. Saving a dataset with no rows and loading it back gives a dataset with no rows, the
  original column names and the original declared types. For the dataset with the one
  integer column named \<open>id\<close> followed by a space, the loaded column is named \<open>id\<close>:
  \<^verbatim>\<open>rstrip()\<close>, there to take the line terminator off the names line, takes the
  trailing space of the last name with it.
\<close>

theorem load_save_zero_rows_trailing_space:
  "fst (load_dataset read_csv ''f''
        (snd (save_dataset to_csv ''f''
           \<lparr>columns = [''id ''], dtypes = [Int64], rows = []\<rparr> empty_world)))
   = Inr \<lparr>columns = [''id''], dtypes = [Int64], rows = []\<rparr>"
  by code_simp

text \<open>Texts that denote a floating-point value, and texts that do not.\<close>

lemma float_examples:
  "is_float_text ''1.5''" "is_float_text ''-0.25''" "is_float_text ''1e+16''" "is_float_text ''12''"
  "\<not> is_float_text ''1.''" "\<not> is_float_text ''abc''" "\<not> is_float_text ''''" "\<not> is_float_text ''1e''"
  "\<not> is_float_text ''1.5.2''" "\<not> is_float_text ''--1''" "is_float_text ''1.2345e-05''"
  by code_simp+

section \<open>What a saved file holds\<close>

lemma newline_join_lines:
  "\<forall>x \<in> set xs. CHR ''\<newline>'' \<notin> set x \<Longrightarrow> CHR ''\<newline>'' \<notin> set (join '','' xs)"
  using set_join [of "'',''" xs] by auto

lemma text_lines_two_headers:
  assumes "CHR ''\<newline>'' \<notin> set a" "CHR ''\<newline>'' \<notin> set b"
    and "\<forall>l \<in> set ls. CHR ''\<newline>'' \<notin> set l"
  shows "text_lines (a @ ''\<newline>'' @ b @ ''\<newline>'' @ concat (map (\<lambda>l. l @ ''\<newline>'') ls))
           = a # b # ls"
  using assms by (simp add: text_lines_append text_lines_concat)

text \<open>
  C4, as stated: the file holds the line of type tags, the line of column names and one
  line per row, \<open>2 + R\<close> lines in all when no value has a newline in it. It fails on
  a dataset of one row whose value is \<open>x\<close> and whose only column is named
  \<open>a\<close>, newline, \<open>b\<close>: the file has four lines.
\<close>

theorem save_dataset_lines_counterexample:
  "files (snd (save_dataset to_csv ''f''
       \<lparr>columns = [''a\<newline>b''], dtypes = [Object], rows = [[StrCell ''x'']]\<rparr> empty_world)) ''f''
     = Some ''object\<newline>a\<newline>b\<newline>x\<newline>''
   \<and> text_lines ''object\<newline>a\<newline>b\<newline>x\<newline>'' = [''object'', ''a'', ''b'', ''x'']
   \<and> length (text_lines ''object\<newline>a\<newline>b\<newline>x\<newline>'') = 4
   \<and> CHR ''\<newline>'' \<notin> set (format_cell (StrCell ''x''))"
  by code_simp

text \<open>
  C4, amended: for every dataset, the file \<^verbatim>\<open>save_dataset\<close> writes holds the type
  tags of the columns joined by commas and a newline, then the column names joined by
  commas and a newline, then for each row the row's values joined by commas and a
  newline, with no row index; when no column name and no value has a newline in it, these
  are the lines of the file, \<open>2 + R\<close> of them for \<open>R\<close> rows.
\<close>

theorem save_dataset_file_text:
  "\<exists>txt. files (snd (save_dataset to_csv filename d w)) filename = Some txt
     \<and> txt = join '','' (map str_dtype (dtypes d)) @ ''\<newline>''
            @ join '','' (columns d) @ ''\<newline>''
            @ concat (map (\<lambda>row. join '','' (map format_cell row) @ ''\<newline>'') (rows d))
     \<and> ((\<forall>name \<in> set (columns d). CHR ''\<newline>'' \<notin> set name)
          \<and> (\<forall>row \<in> set (rows d). \<forall>c \<in> set row. CHR ''\<newline>'' \<notin> set (format_cell c))
         \<longrightarrow> text_lines txt
               = join '','' (map str_dtype (dtypes d)) # join '','' (columns d)
                 # map (\<lambda>row. join '','' (map format_cell row)) (rows d)
             \<and> length (text_lines txt) = 2 + length (rows d))"
proof -
  let ?T = "join '','' (map str_dtype (dtypes d))" and ?N = "join '','' (columns d)"
  let ?ls = "map (\<lambda>row. join '','' (map format_cell row)) (rows d)"
  let ?txt = "?T @ ''\<newline>'' @ ?N @ ''\<newline>''
      @ concat (map (\<lambda>row. join '','' (map format_cell row) @ ''\<newline>'') (rows d))"
  have rows_eq: "concat (map (\<lambda>row. join '','' (map format_cell row) @ ''\<newline>'') (rows d))
      = concat (map (\<lambda>l. l @ ''\<newline>'') ?ls)"
    by (simp add: comp_def)
  have written: "files (snd (save_dataset to_csv filename d w)) filename = Some ?txt"
    by (induction "rows d") (simp_all add: files_save_dataset format_row_def [abs_def])
  have nlT: "CHR ''\<newline>'' \<notin> set ?T"
    by (rule newline_join) (simp add: plain_str_dtype)
  have lines: "text_lines ?txt = ?T # ?N # ?ls \<and> length (text_lines ?txt) = 2 + length (rows d)"
    if names: "\<forall>name \<in> set (columns d). CHR ''\<newline>'' \<notin> set name"
      and cells: "\<forall>row \<in> set (rows d). \<forall>c \<in> set row. CHR ''\<newline>'' \<notin> set (format_cell c)"
  proof -
    have nlN: "CHR ''\<newline>'' \<notin> set ?N"
      using names by (rule newline_join_lines)
    have nlR: "\<forall>l \<in> set ?ls. CHR ''\<newline>'' \<notin> set l"
      using cells by (auto intro!: newline_join_lines)
    have "text_lines ?txt = ?T # ?N # ?ls"
      unfolding rows_eq using nlT nlN nlR by (rule text_lines_two_headers)
    then show ?thesis by simp
  qed
  from written lines show ?thesis by blast
qed

theorem save_dataset_file_text_witness:
  "files (snd (save_dataset to_csv ''cities.csv'' cities empty_world)) ''cities.csv''
     = Some ''int64,object\<newline>id,name\<newline>1,Helsinki\<newline>2,Turku\<newline>''
   \<and> text_lines ''int64,object\<newline>id,name\<newline>1,Helsinki\<newline>2,Turku\<newline>''
     = [''int64,object'', ''id,name'', ''1,Helsinki'', ''2,Turku'']
   \<and> length (text_lines ''int64,object\<newline>id,name\<newline>1,Helsinki\<newline>2,Turku\<newline>'')
     = 2 + length (rows cities)"
proof -
  have n: "\<forall>name \<in> set (columns cities). CHR ''\<newline>'' \<notin> set name"
    by (simp add: cities_def)
  have c: "\<forall>row \<in> set (rows cities). \<forall>c \<in> set row. CHR ''\<newline>'' \<notin> set (format_cell c)"
    by (simp add: cities_def) code_simp
  have e: "join '','' (map str_dtype (dtypes cities)) @ ''\<newline>''
            @ join '','' (columns cities) @ ''\<newline>''
            @ concat (map (\<lambda>row. join '','' (map format_cell row) @ ''\<newline>'') (rows cities))
       = ''int64,object\<newline>id,name\<newline>1,Helsinki\<newline>2,Turku\<newline>''"
    by code_simp
  have l: "map (\<lambda>row. join '','' (map format_cell row)) (rows cities)
       = [''1,Helsinki'', ''2,Turku'']"
    by code_simp
  have h: "join '','' (map str_dtype (dtypes cities)) = ''int64,object''"
      "join '','' (columns cities) = ''id,name''"
    by code_simp+
  from save_dataset_file_text [of "''cities.csv''" cities empty_world]
  obtain written where
    wr: "files (snd (save_dataset to_csv ''cities.csv'' cities empty_world)) ''cities.csv'' = Some written"
    and tx: "written = join '','' (map str_dtype (dtypes cities)) @ ''\<newline>''
            @ join '','' (columns cities) @ ''\<newline>''
            @ concat (map (\<lambda>row. join '','' (map format_cell row) @ ''\<newline>'') (rows cities))"
    and ln: "(\<forall>name \<in> set (columns cities). CHR ''\<newline>'' \<notin> set name)
          \<and> (\<forall>row \<in> set (rows cities). \<forall>c \<in> set row. CHR ''\<newline>'' \<notin> set (format_cell c))
         \<longrightarrow> text_lines written
               = join '','' (map str_dtype (dtypes cities)) # join '','' (columns cities)
                 # map (\<lambda>row. join '','' (map format_cell row)) (rows cities)
             \<and> length (text_lines written) = 2 + length (rows cities)"
    by blast
  from tx e have t: "written = ''int64,object\<newline>id,name\<newline>1,Helsinki\<newline>2,Turku\<newline>''"
    by (simp only:)
  from ln n c have "text_lines written
               = join '','' (map str_dtype (dtypes cities)) # join '','' (columns cities)
                 # map (\<lambda>row. join '','' (map format_cell row)) (rows cities)
             \<and> length (text_lines written) = 2 + length (rows cities)"
    by blast
  then have "text_lines written = [''int64,object'', ''id,name'', ''1,Helsinki'', ''2,Turku'']
      \<and> length (text_lines written) = 2 + length (rows cities)"
    by (auto simp: h l)
  with wr show ?thesis
    unfolding t by blast
qed

section \<open>Values that do not parse\<close>

lemma coerce_error: "coerce t s = Inl e \<Longrightarrow> e = TypeCoercionError"
  by (cases t) (auto split: option.splits if_splits)

lemma coerce_row_error: "coerce_row ts fs = Inl e \<Longrightarrow> e = TypeCoercionError"
  by (induction ts fs rule: coerce_row.induct) (auto split: sum.splits dest: coerce_error)

lemma coerce_row_fail:
  "j < length ts \<Longrightarrow> j < length fs \<Longrightarrow> coerce (ts ! j) (fs ! j) = Inl e
   \<Longrightarrow> coerce_row ts fs = Inl TypeCoercionError"
proof (induction ts fs arbitrary: j rule: coerce_row.induct)
  case (1 t ts s ss)
  show ?case
  proof (cases j)
    case 0
    with 1 have "coerce t s = Inl e" by simp
    moreover from this have "e = TypeCoercionError" by (rule coerce_error)
    ultimately show ?thesis by simp
  next
    case (Suc k)
    show ?thesis
    proof (cases "coerce t s")
      case (Inl err)
      then have "err = TypeCoercionError" by (rule coerce_error)
      with Inl show ?thesis by simp
    next
      case (Inr c)
      from 1 Suc Inr have "coerce_row ts ss = Inl TypeCoercionError"
        by (intro "1.IH" [of c k]) simp_all
      with Inr show ?thesis by simp
    qed
  qed
qed simp_all

lemma coerce_rows_fail:
  "fs \<in> set recs \<Longrightarrow> coerce_row ts fs = Inl TypeCoercionError
   \<Longrightarrow> coerce_rows ts recs = Inl TypeCoercionError"
  by (induction recs) (auto split: sum.splits dest: coerce_row_error)

lemma declared_types_error: "declared_types d names = Inl e \<Longrightarrow> e = TypeCoercionError"
  by (induction names arbitrary: e) (auto split: option.splits sum.splits)

lemma declared_types_nth:
  "declared_types d names = Inr ts \<Longrightarrow> j < length names \<Longrightarrow> map_of d (names ! j) = Some tag
   \<Longrightarrow> j < length ts \<and> dtype_of_tag tag = Some (ts ! j)"
proof (induction names arbitrary: ts j)
  case Nil
  then show ?case by simp
next
  case (Cons n names)
  then show ?case
    by (cases j) (auto split: option.splits sum.splits)
qed


text \<open>
  The reader that compares the field counts first obeys the same rule on a text whose
  rows all have as many fields as there are names.
\<close>

lemma read_csv_rule:
  assumes "\<forall>fs \<in> set (map (split CHR '','') (text_lines g)). length fs = length names"
    and "fs \<in> set (map (split CHR '','') (text_lines g))"
    and "j < length names" and "j < length fs"
    and "map_of dtype (names ! j) = Some tag" and "dtype_of_tag tag = Some t"
    and "coerce t (fs ! j) = Inl e"
  shows "read_csv g dtype names = Inl TypeCoercionError"
proof (cases "declared_types dtype names")
  case (Inl err)
  then have "err = TypeCoercionError" by (rule declared_types_error)
  with Inl assms(1) show ?thesis by (simp add: read_csv_def)
next
  case (Inr ts)
  from declared_types_nth [OF Inr assms(3) assms(5)] assms(6)
  have j: "j < length ts" and t: "ts ! j = t" by simp_all
  from j assms(4) assms(7) t have "coerce_row ts fs = Inl TypeCoercionError"
    by (intro coerce_row_fail [of j ts fs e]) simp_all
  with assms(2) have "coerce_rows ts (map (split CHR '','') (text_lines g)) = Inl TypeCoercionError"
    by (rule coerce_rows_fail)
  with Inr assms(1) show ?thesis by (simp add: read_csv_def)
qed



section \<open>File handles\<close>

text \<open>
  C8. A call of \<^verbatim>\<open>save_dataset\<close> and a call of \<^verbatim>\<open>load_dataset\<close> each make
  exactly one call of \<^verbatim>\<open>open\<close>, and the handles that are open after the call are
  those that were open before it, whatever the writer or the reader returns or raises
  and whatever the file holds. (When \<^verbatim>\<open>open\<close> itself raises, there is no handle.)
\<close>

theorem codec_handle_scoped:
  "opens (snd (save_dataset writer filename d w)) = Suc (opens w)
   \<and> open_handles (snd (save_dataset writer filename d w)) = open_handles w
   \<and> opens (snd (load_dataset reader filename w)) = Suc (opens w)
   \<and> open_handles (snd (load_dataset reader filename w)) = open_handles w"
  by (simp add: save_dataset_def load_dataset_def open_wt_def open_rt_def f_write_def close_def
      Let_def split: sum.splits option.splits prod.splits)

end
